theory Spec2Isabelle
  imports Complex_Main "HOL-Library.Sublist"
begin

section \<open>The serialized format (types.ts)\<close>

text \<open>
  A serialized node is a JSON object whose field \<open>type\<close> selects one of four shapes.
  The payload of a literal is \<open>null | boolean | string\<close>; the payload of a number is
  \<open>number | string\<close>. JavaScript numbers are IEEE doubles; they are kept opaque as the
  type parameter \<open>'f\<close>, since the deserializer only passes them on.

  The declared union has four members. The deserializer nevertheless ends with a branch
  for any other discriminant, which a parsed JSON value can carry at run time; the fifth
  constructor \<open>SerializedOther\<close> holds such a discriminant.
\<close>

datatype literalValue = LNull | LBoolean bool | LString string

datatype 'f numberValue = Native 'f | Text string

datatype 'f SerializedNode =
    SerializedLiteral literalValue
  | SerializedNumber "'f numberValue"
  | SerializedFactory string "'f SerializedNode list"
  | SerializedUndefined
  | SerializedOther string

section \<open>Run-time values and errors\<close>

text \<open>
  \<open>DeserializedValues\<close> of the source is
  \<open>string | number | boolean | ts.Node | null | undefined | DeserializedValues[]\<close>.
  Nodes of the TypeScript compiler are opaque (type parameter \<open>'n\<close>).

  Two further constructors stand for objects that are not nodes. The source never names
  them, but the lookup \<open>factoryMap[node.name]\<close> can reach the function \<open>Object\<close>
  (see \<open>factoryMap\<close> below), whose result is an ordinary object: \<open>VPlainObject\<close> is a
  fresh empty object, \<open>VWrapper v\<close> the wrapper object of the primitive \<open>v\<close>.
\<close>

datatype ('f, 'n) DeserializedValues =
    VString string
  | VNumber 'f
  | VBoolean bool
  | VNode 'n
  | VNull
  | VUndefined
  | VArray "('f, 'n) DeserializedValues list"
  | VPlainObject
  | VWrapper "('f, 'n) DeserializedValues"

text \<open>
  A thrown exception is a value: \<open>Error msg\<close> is \<open>new Error(msg)\<close> as the source
  throws it, \<open>TypeError\<close> is the TypeError of the JavaScript runtime (reading a property
  of \<open>null\<close> or \<open>undefined\<close>, calling something that is not a function, converting
  \<open>undefined\<close> to an object); its message depends on the engine and is left out.
\<close>

datatype error = Error string | TypeError

section \<open>The TypeScript compiler API, as used by the deserializer\<close>

text \<open>
  What the deserializer calls but does not define is a parameter of the model:
  \<^item> \<open>parseFloat\<close>, the global function of the runtime;
  \<^item> \<open>tsFactory name args\<close>, the call \<open>ts.factory.name(...args)\<close>, which returns a node or
    throws (the arguments are forwarded without any check of their number or shape);
  \<^item> \<open>isStatement\<close> and \<open>isExpression\<close>, the predicates \<open>ts.isStatement\<close> and
    \<open>ts.isExpression\<close> on nodes;
  \<^item> \<open>kind\<close>, the numeric field \<open>kind\<close> of a node (a \<open>ts.SyntaxKind\<close>).
\<close>

record ('f, 'n) typescript =
  parseFloat :: "string \<Rightarrow> 'f"
  tsFactory :: "string \<Rightarrow> ('f, 'n) DeserializedValues list \<Rightarrow> error + 'n"
  isStatement :: "'n \<Rightarrow> bool"
  isExpression :: "'n \<Rightarrow> bool"
  kind :: "'n \<Rightarrow> nat"

section \<open>The operation table\<close>

text \<open>
  The keys of the object literal \<open>factoryMap\<close>, in the order of the source. Every key
  \<open>k\<close> is bound to \<open>ts.factory.k\<close>.
\<close>

definition factoryNames :: "string list" where
  "factoryNames = [
     ''createToken'', ''createIdentifier'', ''createPrivateIdentifier'',
     ''createQualifiedName'', ''createStringLiteral'', ''createNumericLiteral'',
     ''createBigIntLiteral'', ''createRegularExpressionLiteral'',
     ''createNoSubstitutionTemplateLiteral'', ''createTrue'', ''createFalse'',
     ''createNull'', ''createArrayLiteralExpression'', ''createObjectLiteralExpression'',
     ''createPropertyAccessExpression'', ''createElementAccessExpression'',
     ''createCallExpression'', ''createNewExpression'', ''createTaggedTemplateExpression'',
     ''createTypeAssertion'', ''createParenthesizedExpression'',
     ''createFunctionExpression'', ''createArrowFunction'', ''createDeleteExpression'',
     ''createTypeOfExpression'', ''createVoidExpression'', ''createAwaitExpression'',
     ''createPrefixUnaryExpression'', ''createPostfixUnaryExpression'',
     ''createBinaryExpression'', ''createConditionalExpression'',
     ''createTemplateExpression'', ''createYieldExpression'', ''createSpreadElement'',
     ''createClassExpression'', ''createOmittedExpression'', ''createAsExpression'',
     ''createNonNullExpression'', ''createSatisfiesExpression'', ''createBlock'',
     ''createEmptyStatement'', ''createVariableStatement'', ''createExpressionStatement'',
     ''createIfStatement'', ''createDoStatement'', ''createWhileStatement'',
     ''createForStatement'', ''createForInStatement'', ''createForOfStatement'',
     ''createContinueStatement'', ''createBreakStatement'', ''createReturnStatement'',
     ''createWithStatement'', ''createSwitchStatement'', ''createLabeledStatement'',
     ''createThrowStatement'', ''createTryStatement'', ''createDebuggerStatement'',
     ''createVariableDeclaration'', ''createVariableDeclarationList'',
     ''createFunctionDeclaration'', ''createClassDeclaration'',
     ''createInterfaceDeclaration'', ''createTypeAliasDeclaration'',
     ''createEnumDeclaration'', ''createModuleDeclaration'', ''createImportDeclaration'',
     ''createImportClause'', ''createNamespaceImport'', ''createNamedImports'',
     ''createImportSpecifier'', ''createExportAssignment'', ''createExportDeclaration'',
     ''createNamedExports'', ''createExportSpecifier'', ''createTypeReferenceNode'',
     ''createTypeQueryNode'', ''createArrayTypeNode'', ''createTupleTypeNode'',
     ''createUnionTypeNode'', ''createIntersectionTypeNode'', ''createLiteralTypeNode'',
     ''createFunctionTypeNode'', ''createTypeLiteralNode'', ''createTypeOperatorNode'',
     ''createIndexedAccessTypeNode'', ''createPropertySignature'',
     ''createPropertyDeclaration'', ''createMethodDeclaration'',
     ''createConstructorDeclaration'', ''createGetAccessorDeclaration'',
     ''createSetAccessorDeclaration'', ''createIndexSignature'',
     ''createClassStaticBlockDeclaration'', ''createPropertyAssignment'',
     ''createShorthandPropertyAssignment'', ''createSpreadAssignment'',
     ''createObjectBindingPattern'', ''createArrayBindingPattern'',
     ''createBindingElement'', ''createParameterDeclaration'',
     ''createTypeParameterDeclaration'', ''createDecorator'', ''createHeritageClause'',
     ''createExpressionWithTypeArguments'', ''createCatchClause'', ''createCaseClause'',
     ''createDefaultClause'', ''createCaseBlock'', ''createTemplateHead'',
     ''createTemplateMiddle'', ''createTemplateTail'', ''createTemplateSpan'',
     ''createKeywordTypeNode'']"

text \<open>
  \<open>factoryMap\<close> is created by an object literal, so its prototype is
  \<open>Object.prototype\<close>, and the read \<open>factoryMap[node.name]\<close> follows the prototype
  chain: a name that is no key of the literal but names a property of
  \<open>Object.prototype\<close> yields that inherited property, not \<open>undefined\<close>. These are the
  properties of \<open>Object.prototype\<close> in ECMAScript (Annex B included, as Node.js has
  them).
\<close>

definition objectPrototypeNames :: "string list" where
  "objectPrototypeNames = [
     ''constructor'', ''hasOwnProperty'', ''isPrototypeOf'', ''propertyIsEnumerable'',
     ''toLocaleString'', ''toString'', ''valueOf'', ''__proto__'',
     ''__defineGetter__'', ''__defineSetter__'', ''__lookupGetter__'',
     ''__lookupSetter__'']"

datatype factoryEntry =
    Operation string
  | Inherited string
  | NoEntry

definition factoryMap :: "string \<Rightarrow> factoryEntry" where
  "factoryMap name =
     (if name \<in> set factoryNames then Operation name
      else if name \<in> set objectPrototypeNames then Inherited name
      else NoEntry)"

text \<open>
  \<open>isObject v\<close>: the value is an object in the sense of ECMAScript (not a primitive).
\<close>

fun isObject :: "('f, 'n) DeserializedValues \<Rightarrow> bool" where
  "isObject (VNode n) = True"
| "isObject (VArray vs) = True"
| "isObject VPlainObject = True"
| "isObject (VWrapper v) = True"
| "isObject v = False"

text \<open>
  The call \<open>factory(...args)\<close> when \<open>factory\<close> is a property inherited from
  \<open>Object.prototype\<close>. The call passes \<open>undefined\<close> as \<open>this\<close>. By ECMAScript:
  \<^item> \<open>constructor\<close> is \<open>Object\<close>: for no argument, \<open>undefined\<close> or \<open>null\<close> it returns
    a new empty object, for another primitive its wrapper, for an object that object;
  \<^item> \<open>toString\<close> returns \<open>"[object Undefined]"\<close> for the \<open>this\<close> value \<open>undefined\<close>;
  \<^item> \<open>isPrototypeOf\<close> returns \<open>false\<close> when its argument is not an object, before it
    looks at \<open>this\<close>;
  \<^item> \<open>__proto__\<close> is an accessor: the read yields the object \<open>Object.prototype\<close>,
    which is truthy but not callable, so the call throws a TypeError;
  \<^item> every other one converts \<open>this\<close> to an object and throws a TypeError.
\<close>

fun callObject :: "('f, 'n) DeserializedValues list \<Rightarrow> ('f, 'n) DeserializedValues" where
  "callObject [] = VPlainObject"
| "callObject (VUndefined # vs) = VPlainObject"
| "callObject (VNull # vs) = VPlainObject"
| "callObject (v # vs) = (if isObject v then v else VWrapper v)"

definition callInherited ::
  "string \<Rightarrow> ('f, 'n) DeserializedValues list \<Rightarrow> error + ('f, 'n) DeserializedValues" where
  "callInherited name args =
     (if name = ''constructor'' then Inr (callObject args)
      else if name = ''toString'' then Inr (VString ''[object Undefined]'')
      else if name = ''isPrototypeOf'' then
        (case args of
           [] \<Rightarrow> Inr (VBoolean False)
         | v # vs \<Rightarrow> if isObject v then Inl TypeError else Inr (VBoolean False))
      else Inl TypeError)"

section \<open>The deserializer\<close>

fun ofLiteral :: "literalValue \<Rightarrow> ('f, 'n) DeserializedValues" where
  "ofLiteral LNull = VNull"
| "ofLiteral (LBoolean b) = VBoolean b"
| "ofLiteral (LString s) = VString s"

text \<open>
  \<open>invoke ts factory args\<close> is the call \<open>factory(...args)\<close> for the value \<open>factory\<close>
  read from the table. (It is never reached with \<open>NoEntry\<close>: the source throws before.)
\<close>

fun invoke ::
  "('f, 'n) typescript \<Rightarrow> factoryEntry \<Rightarrow> ('f, 'n) DeserializedValues list \<Rightarrow>
     error + ('f, 'n) DeserializedValues" where
  "invoke ts (Operation name) args =
     (case tsFactory ts name args of Inl e \<Rightarrow> Inl e | Inr n \<Rightarrow> Inr (VNode n))"
| "invoke ts (Inherited name) args = callInherited name args"
| "invoke ts NoEntry args = Inl TypeError"

text \<open>
  \<open>deserialize\<close> and \<open>deserializeFactory\<close> as in the source; \<open>deserializeArgs\<close> is
  \<open>node.args.map(deserialize)\<close>: the elements are deserialized from left to right, and
  the first exception ends the loop.
\<close>

fun deserialize ::
      "('f, 'n) typescript \<Rightarrow> 'f SerializedNode \<Rightarrow> error + ('f, 'n) DeserializedValues"
  and deserializeFactory ::
      "('f, 'n) typescript \<Rightarrow> string \<Rightarrow> 'f SerializedNode list \<Rightarrow>
         error + ('f, 'n) DeserializedValues"
  and deserializeArgs ::
      "('f, 'n) typescript \<Rightarrow> 'f SerializedNode list \<Rightarrow>
         error + ('f, 'n) DeserializedValues list"
where
  "deserialize ts (SerializedLiteral v) = Inr (ofLiteral v)"
| "deserialize ts SerializedUndefined = Inr VUndefined"
| "deserialize ts (SerializedNumber (Text s)) = Inr (VNumber (parseFloat ts s))"
| "deserialize ts (SerializedNumber (Native x)) = Inr (VNumber x)"
| "deserialize ts (SerializedFactory name args) = deserializeFactory ts name args"
| "deserialize ts (SerializedOther t) = Inl (Error (''Unknown node type: '' @ t))"
| "deserializeFactory ts name args =
     (if name = ''__array__'' then
        (case deserializeArgs ts args of Inl e \<Rightarrow> Inl e | Inr vs \<Rightarrow> Inr (VArray vs))
      else
        (case factoryMap name of
           NoEntry \<Rightarrow> Inl (Error (''Unknown factory method: '' @ name))
         | factory \<Rightarrow>
             (case deserializeArgs ts args of
                Inl e \<Rightarrow> Inl e
              | Inr vs \<Rightarrow> invoke ts factory vs)))"
| "deserializeArgs ts [] = Inr []"
| "deserializeArgs ts (a # as) =
     (case deserialize ts a of
        Inl e \<Rightarrow> Inl e
      | Inr v \<Rightarrow>
          (case deserializeArgs ts as of Inl e \<Rightarrow> Inl e | Inr vs \<Rightarrow> Inr (v # vs)))"

section \<open>Typed projections\<close>

text \<open>
  Decimal digits of a natural number, as a template literal renders a \<open>ts.SyntaxKind\<close>
  or a line number.
\<close>

definition digitChar :: "nat \<Rightarrow> char" where
  "digitChar d = ''0123456789'' ! d"

fun showNat :: "nat \<Rightarrow> string" where
  "showNat n = (if n < 10 then [digitChar n] else showNat (n div 10) @ [digitChar (n mod 10)])"

declare showNat.simps [simp del]

text \<open>
  \<open>ts.isStatement(result as ts.Node)\<close> and \<open>ts.isExpression(result as ts.Node)\<close>: the
  cast does nothing at run time, and both predicates begin by reading \<open>node.kind\<close>.
  On \<open>null\<close> and \<open>undefined\<close> that read throws a TypeError; on any other value that is
  not a node it yields \<open>undefined\<close>, which is no statement kind and no expression kind.
\<close>

fun callIsStatement :: "('f, 'n) typescript \<Rightarrow> ('f, 'n) DeserializedValues \<Rightarrow> error + bool" where
  "callIsStatement ts VNull = Inl TypeError"
| "callIsStatement ts VUndefined = Inl TypeError"
| "callIsStatement ts (VNode n) = Inr (isStatement ts n)"
| "callIsStatement ts v = Inr False"

fun callIsExpression :: "('f, 'n) typescript \<Rightarrow> ('f, 'n) DeserializedValues \<Rightarrow> error + bool" where
  "callIsExpression ts VNull = Inl TypeError"
| "callIsExpression ts VUndefined = Inl TypeError"
| "callIsExpression ts (VNode n) = Inr (isExpression ts n)"
| "callIsExpression ts v = Inr False"

text \<open>
  The text of \<open>${(result as ts.Node).kind}\<close> in the error message: the digits of the
  kind of a node, \<open>undefined\<close> for another value, a TypeError for \<open>null\<close> and
  \<open>undefined\<close>.
\<close>

fun kindText :: "('f, 'n) typescript \<Rightarrow> ('f, 'n) DeserializedValues \<Rightarrow> error + string" where
  "kindText ts VNull = Inl TypeError"
| "kindText ts VUndefined = Inl TypeError"
| "kindText ts (VNode n) = Inr (showNat (kind ts n))"
| "kindText ts v = Inr ''undefined''"

definition deserializeStatement ::
  "('f, 'n) typescript \<Rightarrow> 'f SerializedNode \<Rightarrow> error + ('f, 'n) DeserializedValues" where
  "deserializeStatement ts node =
     (case deserialize ts node of
        Inl e \<Rightarrow> Inl e
      | Inr result \<Rightarrow>
          (case callIsStatement ts result of
             Inl e \<Rightarrow> Inl e
           | Inr ok \<Rightarrow>
               if \<not> ok then
                 (case kindText ts result of
                    Inl e \<Rightarrow> Inl e
                  | Inr k \<Rightarrow> Inl (Error (''Expected a statement, got: '' @ k)))
               else Inr result))"

fun deserializeStatements ::
  "('f, 'n) typescript \<Rightarrow> 'f SerializedNode list \<Rightarrow>
     error + ('f, 'n) DeserializedValues list" where
  "deserializeStatements ts [] = Inr []"
| "deserializeStatements ts (a # as) =
     (case deserializeStatement ts a of
        Inl e \<Rightarrow> Inl e
      | Inr v \<Rightarrow>
          (case deserializeStatements ts as of Inl e \<Rightarrow> Inl e | Inr vs \<Rightarrow> Inr (v # vs)))"

definition deserializeExpression ::
  "('f, 'n) typescript \<Rightarrow> 'f SerializedNode \<Rightarrow> error + ('f, 'n) DeserializedValues" where
  "deserializeExpression ts node =
     (case deserialize ts node of
        Inl e \<Rightarrow> Inl e
      | Inr result \<Rightarrow>
          (case callIsExpression ts result of
             Inl e \<Rightarrow> Inl e
           | Inr ok \<Rightarrow>
               if \<not> ok then
                 (case kindText ts result of
                    Inl e \<Rightarrow> Inl e
                  | Inr k \<Rightarrow> Inl (Error (''Expected an expression, got: '' @ k)))
               else Inr result))"

definition deserializeDeclaration ::
  "('f, 'n) typescript \<Rightarrow> 'f SerializedNode \<Rightarrow> error + ('f, 'n) DeserializedValues" where
  "deserializeDeclaration ts node =
     (case deserialize ts node of Inl e \<Rightarrow> Inl e | Inr result \<Rightarrow> Inr result)"

section \<open>The printer (printer.ts)\<close>

record PrinterOptions =
  singleQuote :: "bool option"
  trailingNewline :: "bool option"
  indentWidth :: "nat option"
  removeComments :: "bool option"

text \<open>
  \<open>createLinter\<close> fixes the configuration of the style checker but for three rules,
  which it computes from the options.
\<close>

datatype quoteStyle = SingleQuotes | DoubleQuotes

datatype eolStyle = Never | Always

record linterRules =
  indentRule :: nat
  quotesRule :: quoteStyle
  eolLastRule :: eolStyle

definition createLinter :: "PrinterOptions \<Rightarrow> linterRules" where
  "createLinter options =
     \<lparr> indentRule = (case indentWidth options of None \<Rightarrow> 2 | Some w \<Rightarrow> w),
       quotesRule = (if singleQuote options = Some True then SingleQuotes else DoubleQuotes),
       eolLastRule = (if trailingNewline options = Some False then Never else Always) \<rparr>"

record LintMessage =
  line :: nat
  column :: nat
  message :: string

text \<open>
  One element of the array the checker resolves to; \<open>lintOutput\<close> is its optional field
  \<open>output\<close> (the fixed text, present when a fix was applied).
\<close>

record LintResult =
  lintOutput :: "string option"
  messages :: "LintMessage list"

text \<open>
  The collaborators of the printer are parameters of the model:
  \<^item> \<open>printNodeText rc node\<close> is \<open>printer.printNode(ts.EmitHint.Unspecified, node,
    sourceFile)\<close> for the printer created with \<open>removeComments: rc\<close>;
  \<^item> \<open>printFileText rc statements\<close> is \<open>printer.printFile\<close> of the source file that
    \<open>ts.factory.createSourceFile\<close> builds from the statements;
  \<^item> \<open>printListText rc nodes\<close> is \<open>printer.printList(ts.ListFormat.MultiLine, ...)\<close>
    of the node array made from the nodes;
  \<^item> \<open>eslint rules text\<close> is the array that \<open>linter.lintText(text, ...)\<close> resolves to,
    for the linter that \<open>createLinter\<close> configures.

  The print operations are \<open>async\<close>; awaiting the checker is modelled as a call. The
  printer and the checker are taken as returning: an exception thrown inside them is
  not part of the model.
\<close>

record 'n printerApi =
  printNodeText :: "bool \<Rightarrow> 'n \<Rightarrow> string"
  printFileText :: "bool \<Rightarrow> 'n list \<Rightarrow> string"
  printListText :: "bool \<Rightarrow> 'n list \<Rightarrow> string"
  eslint :: "linterRules \<Rightarrow> string \<Rightarrow> LintResult list"

definition newline :: string where
  "newline = [CHR 0x0A]"

fun join :: "string \<Rightarrow> string list \<Rightarrow> string" where
  "join sep [] = []"
| "join sep [x] = x"
| "join sep (x # y # ys) = x @ sep @ join sep (y # ys)"

definition formatMessage :: "LintMessage \<Rightarrow> string" where
  "formatMessage m = showNat (line m) @ '':'' @ showNat (column m) @ '' '' @ message m"

text \<open>
  Every print operation returns, beside its outcome, the list of the calls it made to the
  style checker (rules and text of each call), so that "the checker was not invoked" is
  a statement about the result.
\<close>

type_synonym printed = "(linterRules \<times> string) list \<times> (error + string)"

text \<open>
  The message of the error that \<open>lintText\<close> throws: the template
  \<open>unable to lint printed node:\n\n${text}\n\nErrors:\n${messages}\<close>.
\<close>

definition unableToLint :: "string \<Rightarrow> LintMessage list \<Rightarrow> string" where
  "unableToLint text ms =
     ''unable to lint printed node:'' @ newline @ newline @ text @ newline @ newline
       @ ''Errors:'' @ newline @ join newline (map formatMessage ms)"

definition lintText :: "'n printerApi \<Rightarrow> string \<Rightarrow> PrinterOptions \<Rightarrow> printed" where
  "lintText api text options =
     (let linter = createLinter options;
          result = eslint api linter text
      in ([(linter, text)],
          (case result of
             [] \<Rightarrow> Inr text
           | r # rs \<Rightarrow>
               (case lintOutput r of
                  Some fixed \<Rightarrow> Inr fixed
                | None \<Rightarrow>
                    if messages r = [] then Inr text
                    else Inl (Error (unableToLint text (messages r)))))))"

definition createPrinter :: "PrinterOptions \<Rightarrow> bool" where
  "createPrinter options = (case removeComments options of None \<Rightarrow> False | Some rc \<Rightarrow> rc)"

definition printNode :: "'n printerApi \<Rightarrow> 'n \<Rightarrow> PrinterOptions \<Rightarrow> printed" where
  "printNode api node options =
     (let text = printNodeText api (createPrinter options) node
      in if text = [] then ([], Inr []) else lintText api text options)"

definition printNodes :: "'n printerApi \<Rightarrow> 'n list \<Rightarrow> PrinterOptions \<Rightarrow> printed" where
  "printNodes api nodes options =
     (let parts = map (printNodeText api (createPrinter options)) nodes;
          text = join newline parts
      in if text = [] then ([], Inr []) else lintText api text options)"

definition printFile :: "'n printerApi \<Rightarrow> 'n list \<Rightarrow> PrinterOptions \<Rightarrow> printed" where
  "printFile api statements options =
     (let text = printFileText api (createPrinter options) statements
      in if text = [] then ([], Inr []) else lintText api text options)"

definition printNodeList :: "'n printerApi \<Rightarrow> 'n list \<Rightarrow> PrinterOptions \<Rightarrow> printed" where
  "printNodeList api nodes options =
     (let text = printListText api (createPrinter options) nodes
      in lintText api text options)"

section \<open>The parseFloat of the runtime\<close>

text \<open>
  Modelled from the spec: \<open>parseFloat\<close> is the global function of the JavaScript
  runtime, not code of the repository, and the deserializer hands it the string payload
  of a number node. The specification describes the parse as standard decimal parsing,
  with no locale awareness and no radix prefixes. The definitions below follow the
  algorithm that ECMA-262 gives for \<open>parseFloat\<close>:
  \<^item> leading white space and line terminators are dropped;
  \<^item> the longest prefix that is a \<open>StrDecimalLiteral\<close> is read: an optional sign, then
    either \<open>Infinity\<close>, or decimal digits with an optional point and further digits (or
    a point and digits), and an optional exponent (\<open>e\<close> or \<open>E\<close>, an optional sign,
    digits); whatever follows the prefix is ignored;
  \<^item> when there is no such prefix the result is \<open>NaN\<close>;
  \<^item> otherwise the result is the double nearest to the value read, which is an infinity
    from \<open>2 ^ 1024 - 2 ^ 970\<close> on (half way between the largest double and
    \<open>2 ^ 1024\<close>).

  A double is represented by the exact value it was rounded from: \<open>Finite negative q\<close>
  is the double nearest to the rational \<open>q \<ge> 0\<close>, negated when \<open>negative\<close> (so
  \<open>Finite True 0\<close> is \<open>-0\<close>). Equal representations are equal doubles; the rounding
  itself is not computed. Strings are ASCII, so of the white space of ECMAScript only
  tab, line feed, vertical tab, form feed, carriage return and space occur.
\<close>

datatype jsNumber = NaN | Infinity bool | Finite bool rat

definition isWhiteSpace :: "char \<Rightarrow> bool" where
  "isWhiteSpace c =
     (c \<in> set [CHR 0x09, CHR 0x0A, CHR 0x0B, CHR 0x0C, CHR 0x0D, CHR '' ''])"

definition isDigit :: "char \<Rightarrow> bool" where
  "isDigit c = (c \<in> set ''0123456789'')"

definition digitValue :: "char \<Rightarrow> nat" where
  "digitValue c = of_char c - of_char CHR ''0''"

definition digitsValue :: "string \<Rightarrow> nat" where
  "digitsValue ds = foldl (\<lambda>n c. 10 * n + digitValue c) 0 ds"

text \<open>
  \<open>scale q e\<close> is \<open>q * 10 ^ e\<close>; \<open>roundMV\<close> is the rounding of a value to a double, as far
  as it is represented here.
\<close>

definition scale :: "rat \<Rightarrow> int \<Rightarrow> rat" where
  "scale q e = (if 0 \<le> e then q * 10 ^ nat e else q / 10 ^ nat (- e))"

definition roundMV :: "bool \<Rightarrow> rat \<Rightarrow> jsNumber" where
  "roundMV negative q =
     (if 2 ^ 1024 - 2 ^ 970 \<le> q then Infinity negative else Finite negative q)"

text \<open>
  The exponent that begins the string: \<open>e\<close> or \<open>E\<close>, an optional sign and digits. When
  there is none, or no digit follows, the result is 0, which leaves the value unscaled
  as the grammar does when it takes no exponent part.
\<close>

definition exponentPart :: "string \<Rightarrow> int" where
  "exponentPart s =
     (case s of
        [] \<Rightarrow> 0
      | c # r \<Rightarrow>
          if c = CHR ''e'' \<or> c = CHR ''E'' then
            (case r of
               [] \<Rightarrow> 0
             | d # r' \<Rightarrow>
                 if d = CHR ''-'' then - int (digitsValue (takeWhile isDigit r'))
                 else if d = CHR ''+'' then int (digitsValue (takeWhile isDigit r'))
                 else int (digitsValue (takeWhile isDigit r)))
          else 0)"

text \<open>
  The value of the longest \<open>StrUnsignedDecimalLiteral\<close> that begins \<open>s\<close>: \<open>ip\<close> are the
  digits before the point, \<open>fp\<close> the digits after it, \<open>r2\<close> what follows them.
\<close>

definition strUnsignedDecimalLiteral :: "bool \<Rightarrow> string \<Rightarrow> jsNumber" where
  "strUnsignedDecimalLiteral negative s =
     (if prefix ''Infinity'' s then Infinity negative
      else
        let ip = takeWhile isDigit s;
            r1 = dropWhile isDigit s;
            fp = (case r1 of [] \<Rightarrow> [] | c # r \<Rightarrow>
                    if c = CHR ''.'' then takeWhile isDigit r else []);
            r2 = (case r1 of [] \<Rightarrow> [] | c # r \<Rightarrow>
                    if c = CHR ''.'' then dropWhile isDigit r else r1)
        in if ip = [] \<and> fp = [] then NaN
           else roundMV negative
                  (scale (of_nat (digitsValue (ip @ fp)) / 10 ^ length fp) (exponentPart r2)))"

definition jsParseFloat :: "string \<Rightarrow> jsNumber" where
  "jsParseFloat s =
     (case dropWhile isWhiteSpace s of
        [] \<Rightarrow> NaN
      | c # r \<Rightarrow>
          if c = CHR ''-'' then strUnsignedDecimalLiteral True r
          else if c = CHR ''+'' then strUnsignedDecimalLiteral False r
          else strUnsignedDecimalLiteral False (c # r))"

section \<open>A sample library for closed examples\<close>

text \<open>
  The theorems below hold for every \<open>typescript\<close> and every \<open>printerApi\<close>. A closed
  example needs one of each. The sample runtime has the numbers \<open>jsNumber\<close> and the
  \<open>parseFloat\<close> above. A sample node is the term of the factory call that built it. The
  sample checker
  reports a parsing error for a text with the character \<open>@\<close>, adds a missing
  final newline when the rule asks for one, and reports nothing otherwise.
\<close>

datatype sampleNode =
  SampleNode string "(jsNumber, sampleNode) DeserializedValues list"

fun sampleIsStatement :: "sampleNode \<Rightarrow> bool" where
  "sampleIsStatement (SampleNode name args) =
     (name \<in> set [''createExpressionStatement'', ''createEmptyStatement'',
        ''createReturnStatement''])"

fun sampleIsExpression :: "sampleNode \<Rightarrow> bool" where
  "sampleIsExpression (SampleNode name args) =
     (name \<in> set [''createIdentifier'', ''createStringLiteral'',
        ''createNumericLiteral''])"

fun sampleKind :: "sampleNode \<Rightarrow> nat" where
  "sampleKind (SampleNode name args) =
     (if name = ''createNumericLiteral'' then 9
      else if name = ''createStringLiteral'' then 11
      else if name = ''createIdentifier'' then 80
      else if name = ''createEmptyStatement'' then 242
      else if name = ''createExpressionStatement'' then 244
      else if name = ''createReturnStatement'' then 253
      else 0)"

definition sampleTs :: "(jsNumber, sampleNode) typescript" where
  "sampleTs =
     \<lparr> parseFloat = jsParseFloat,
       tsFactory = (\<lambda>name args. Inr (SampleNode name args)),
       isStatement = sampleIsStatement,
       isExpression = sampleIsExpression,
       kind = sampleKind \<rparr>"

fun sampleText :: "sampleNode \<Rightarrow> string" where
  "sampleText (SampleNode name args) = (case args of VString s # vs \<Rightarrow> s | _ \<Rightarrow> [])"

definition sampleEslint :: "linterRules \<Rightarrow> string \<Rightarrow> LintResult list" where
  "sampleEslint rules text =
     (if CHR ''@'' \<in> set text then
        [\<lparr> lintOutput = None,
            messages = [\<lparr> line = 1, column = 1,
                           message = ''Parsing error: Invalid character.'' \<rparr>] \<rparr>]
      else if eolLastRule rules = Always \<and> text \<noteq> [] \<and> last text \<noteq> CHR 0x0A then
        [\<lparr> lintOutput = Some (text @ newline), messages = [] \<rparr>]
      else [\<lparr> lintOutput = None, messages = [] \<rparr>])"

definition sampleApi :: "sampleNode printerApi" where
  "sampleApi =
     \<lparr> printNodeText = (\<lambda>rc n. sampleText n),
       printFileText = (\<lambda>rc ns. concat (map (\<lambda>n. sampleText n @ newline) ns)),
       printListText = (\<lambda>rc ns. join newline (map sampleText ns)),
       eslint = sampleEslint \<rparr>"

definition defaultOptions :: PrinterOptions where
  "defaultOptions =
     \<lparr> singleQuote = None, trailingNewline = None, indentWidth = None,
       removeComments = None \<rparr>"

section \<open>Facts about the argument loop and the table\<close>

lemma deserializeArgs_Inr:
  "deserializeArgs ts args = Inr vs \<longleftrightarrow> map (deserialize ts) args = map Inr vs"
proof (induction args arbitrary: vs)
  case Nil
  show ?case by auto
next
  case (Cons a args)
  show ?case
  proof (cases "deserialize ts a")
    case (Inl e)
    then show ?thesis by (auto simp: Cons_eq_map_conv)
  next
    case v: (Inr v)
    show ?thesis
    proof (cases "deserializeArgs ts args")
      case (Inl e)
      then have "map (deserialize ts) args \<noteq> map Inr ws" for ws
        using Cons.IH [of ws] by simp
      with v Inl show ?thesis by (auto simp: Cons_eq_map_conv)
    next
      case (Inr ws)
      then have "map (deserialize ts) args = map Inr ws"
        using Cons.IH [of ws] by simp
      with v Inr show ?thesis by (auto simp: Cons_eq_map_conv)
    qed
  qed
qed

lemma deserializeArgs_Inl:
  "map (deserialize ts) pre = map Inr vs \<Longrightarrow> deserialize ts a = Inl e \<Longrightarrow>
     deserializeArgs ts (pre @ a # post) = Inl e"
  by (induction pre arbitrary: vs) (auto split: sum.splits simp: Cons_eq_map_conv)

lemma deserializeArgs_cases:
  "(\<exists>us. map (deserialize ts) args = map Inr us)
   \<or> (\<exists>pre x post ws e. args = pre @ x # post
         \<and> map (deserialize ts) pre = map Inr ws \<and> deserialize ts x = Inl e)"
proof (induction args)
  case Nil
  show ?case by simp
next
  case (Cons a args)
  show ?case
  proof (cases "deserialize ts a")
    case (Inl e)
    then have "a # args = [] @ a # args \<and> map (deserialize ts) [] = map Inr []
        \<and> deserialize ts a = Inl e"
      by simp
    then show ?thesis by blast
  next
    case (Inr v)
    from Cons.IH show ?thesis
    proof
      assume "\<exists>us. map (deserialize ts) args = map Inr us"
      then obtain us where "map (deserialize ts) args = map Inr us" ..
      with Inr have "map (deserialize ts) (a # args) = map Inr (v # us)" by simp
      then show ?thesis by blast
    next
      assume "\<exists>pre x post ws e. args = pre @ x # post
          \<and> map (deserialize ts) pre = map Inr ws \<and> deserialize ts x = Inl e"
      then obtain pre x post ws e where "args = pre @ x # post"
          "map (deserialize ts) pre = map Inr ws" "deserialize ts x = Inl e"
        by blast
      with Inr have "a # args = (a # pre) @ x # post
          \<and> map (deserialize ts) (a # pre) = map Inr (v # ws) \<and> deserialize ts x = Inl e"
        by simp
      then show ?thesis by blast
    qed
  qed
qed

lemma factoryMap_own: "name \<in> set factoryNames \<Longrightarrow> factoryMap name = Operation name"
  by (simp add: factoryMap_def)

lemma sample_names:
  "''createExpressionStatement'' \<in> set factoryNames"
  "''createCallExpression'' \<in> set factoryNames"
  "''createIdentifier'' \<in> set factoryNames"
  "''bogusThing'' \<notin> set factoryNames"
  "''bogusThing'' \<notin> set objectPrototypeNames"
  by (simp_all add: factoryNames_def objectPrototypeNames_def)

section \<open>Facts about parseFloat\<close>

lemmas parseFloat_defs = jsParseFloat_def strUnsignedDecimalLiteral_def exponentPart_def
  roundMV_def scale_def digitsValue_def digitValue_def isDigit_def isWhiteSpace_def Let_def

lemma digitsValue_append:
  "digitsValue (xs @ ys) = digitsValue xs * 10 ^ length ys + digitsValue ys"
proof (induction ys rule: rev_induct)
  case Nil
  show ?case by (simp add: digitsValue_def)
next
  case (snoc y ys)
  have "digitsValue (xs @ ys @ [y]) = 10 * digitsValue (xs @ ys) + digitValue y"
    by (simp add: digitsValue_def)
  also have "\<dots> = 10 * (digitsValue xs * 10 ^ length ys + digitsValue ys) + digitValue y"
    by (simp add: snoc.IH)
  also have "\<dots> = digitsValue xs * 10 ^ length (ys @ [y]) + digitsValue (ys @ [y])"
    by (simp add: digitsValue_def algebra_simps)
  finally show ?case by simp
qed

lemma digit_facts:
  assumes "isDigit d"
  shows "\<not> isWhiteSpace d" "d \<noteq> CHR ''-''" "d \<noteq> CHR ''+''" "d \<noteq> CHR ''I''"
  using assms by (auto simp: isDigit_def isWhiteSpace_def)

lemma strUnsignedDecimalLiteral_digits:
  assumes "ip \<noteq> []" "list_all isDigit ip" "list_all isDigit fp"
  shows "strUnsignedDecimalLiteral False (ip @ ''.'' @ fp) =
     roundMV False (of_nat (digitsValue ip) + of_nat (digitsValue fp) / 10 ^ length fp)"
proof -
  from assms obtain d ds where ip: "ip = d # ds" and d: "isDigit d"
    by (cases ip) auto
  have ninf: "\<not> prefix ''Infinity'' (ip @ ''.'' @ fp)"
    using digit_facts(4) [OF d] by (simp add: ip)
  have tw: "takeWhile isDigit (ip @ CHR ''.'' # fp) = ip"
    using assms(2) by (simp add: takeWhile_append2 list_all_iff isDigit_def)
  have dw: "dropWhile isDigit (ip @ CHR ''.'' # fp) = CHR ''.'' # fp"
    using assms(2) by (simp add: dropWhile_append2 list_all_iff isDigit_def)
  have twf: "takeWhile isDigit fp = fp" and dwf: "dropWhile isDigit fp = []"
    using assms(3) by (simp_all add: list_all_iff)
  have val: "(of_nat (digitsValue (ip @ fp)) :: rat) / 10 ^ length fp =
      of_nat (digitsValue ip) + of_nat (digitsValue fp) / 10 ^ length fp"
    by (simp add: digitsValue_append add_divide_distrib)
  show ?thesis
    unfolding strUnsignedDecimalLiteral_def Let_def
    using ninf assms(1) by (simp add: tw dw twf dwf exponentPart_def scale_def val)
qed

lemma jsParseFloat_decimal:
  assumes "ip \<noteq> []" "list_all isDigit ip" "list_all isDigit fp"
  shows "jsParseFloat (ip @ ''.'' @ fp) =
     roundMV False (of_nat (digitsValue ip) + of_nat (digitsValue fp) / 10 ^ length fp)"
proof -
  from assms obtain d ds where ip: "ip = d # ds" and d: "isDigit d"
    by (cases ip) auto
  have "jsParseFloat (ip @ ''.'' @ fp) = strUnsignedDecimalLiteral False (ip @ ''.'' @ fp)"
    using digit_facts [OF d] by (simp add: jsParseFloat_def ip)
  then show ?thesis
    by (simp only: strUnsignedDecimalLiteral_digits [OF assms])
qed

lemma jsParseFloat_integer_then:
  assumes "ip \<noteq> []" "list_all isDigit ip" "\<not> isDigit c"
    "c \<noteq> CHR ''.''" "c \<noteq> CHR ''e''" "c \<noteq> CHR ''E''"
  shows "jsParseFloat (ip @ c # rest) = roundMV False (of_nat (digitsValue ip))"
proof -
  from assms obtain d ds where ip: "ip = d # ds" and d: "isDigit d"
    by (cases ip) auto
  have ninf: "\<not> prefix ''Infinity'' (ip @ c # rest)"
    using digit_facts(4) [OF d] by (simp add: ip)
  have tw: "takeWhile isDigit (ip @ c # rest) = ip"
    using assms(2,3) by (simp add: takeWhile_append2 list_all_iff)
  have dw: "dropWhile isDigit (ip @ c # rest) = c # rest"
    using assms(2,3) by (simp add: dropWhile_append2 list_all_iff)
  have "jsParseFloat (ip @ c # rest) = strUnsignedDecimalLiteral False (ip @ c # rest)"
    using digit_facts [OF d] by (simp add: jsParseFloat_def ip)
  also have "\<dots> = roundMV False (of_nat (digitsValue ip))"
    unfolding strUnsignedDecimalLiteral_def Let_def
    using ninf assms(1,4,5,6) by (simp add: tw dw exponentPart_def scale_def)
  finally show ?thesis .
qed

lemma jsParseFloat_hex: "jsParseFloat (''0x'' @ rest) = Finite False 0"
  by (simp add: parseFloat_defs)

lemma jsParseFloat_integer:
  assumes "ip \<noteq> []" "list_all isDigit ip"
  shows "jsParseFloat ip = roundMV False (of_nat (digitsValue ip))"
proof -
  from assms obtain d ds where ip: "ip = d # ds" and d: "isDigit d"
    by (cases ip) auto
  have ninf: "\<not> prefix ''Infinity'' ip"
    using digit_facts(4) [OF d] by (simp add: ip)
  have tw: "takeWhile isDigit ip = ip" and dw: "dropWhile isDigit ip = []"
    using assms(2) by (simp_all add: list_all_iff)
  have "jsParseFloat ip = strUnsignedDecimalLiteral False ip"
    using digit_facts [OF d] by (simp add: jsParseFloat_def ip)
  also have "\<dots> = roundMV False (of_nat (digitsValue ip))"
    unfolding strUnsignedDecimalLiteral_def Let_def
    using ninf assms(1) by (simp add: tw dw exponentPart_def scale_def)
  finally show ?thesis .
qed

section \<open>Factory nodes\<close>

text \<open>
  C1. A factory node whose name is not \<open>__array__\<close> and is a key of the operation table
  deserializes to the result of the operation \<open>ts.factory.name\<close>, called with the list
  of the deserialized arguments in their order (its node, or the exception it throws).
  The arguments are deserialized first, from left to right: when the arguments before
  \<open>a\<close> deserialize and \<open>a\<close> fails, the node fails with the error of \<open>a\<close>, whatever
  follows \<open>a\<close> and whatever the operation would do.
\<close>

theorem deserialize_factory_invokes_operation:
  assumes "name \<noteq> ''__array__''" and "name \<in> set factoryNames"
  shows "(map (deserialize ts) args = map Inr vs \<longrightarrow>
            deserialize ts (SerializedFactory name args) =
              (case tsFactory ts name vs of Inl e \<Rightarrow> Inl e | Inr n \<Rightarrow> Inr (VNode n)))
       \<and> (map (deserialize ts) pre = map Inr vs \<and> deserialize ts a = Inl e \<longrightarrow>
            deserialize ts (SerializedFactory name (pre @ a # post)) = Inl e)"
proof (intro conjI impI)
  assume "map (deserialize ts) args = map Inr vs"
  then have "deserializeArgs ts args = Inr vs"
    by (simp add: deserializeArgs_Inr)
  with assms show "deserialize ts (SerializedFactory name args) =
      (case tsFactory ts name vs of Inl e \<Rightarrow> Inl e | Inr n \<Rightarrow> Inr (VNode n))"
    by (simp add: factoryMap_own)
next
  assume "map (deserialize ts) pre = map Inr vs \<and> deserialize ts a = Inl e"
  then have "deserializeArgs ts (pre @ a # post) = Inl e"
    by (simp add: deserializeArgs_Inl)
  with assms show "deserialize ts (SerializedFactory name (pre @ a # post)) = Inl e"
    by (simp add: factoryMap_own)
qed

theorem deserialize_factory_invokes_operation_witness:
  "deserialize sampleTs
     (SerializedFactory ''createExpressionStatement''
        [SerializedFactory ''createIdentifier'' [SerializedLiteral (LString ''x'')]]) =
     Inr (VNode (SampleNode ''createExpressionStatement''
        [VNode (SampleNode ''createIdentifier'' [VString ''x''])]))
   \<and> deserialize sampleTs
     (SerializedFactory ''createCallExpression''
        [SerializedLiteral (LString ''f''), SerializedFactory ''bogusThing'' [],
         SerializedOther ''comment'']) =
     Inl (Error ''Unknown factory method: bogusThing'')"
proof -
  have inner: "deserialize sampleTs (SerializedFactory ''createIdentifier''
      [SerializedLiteral (LString ''x'')]) =
      Inr (VNode (SampleNode ''createIdentifier'' [VString ''x'']))"
    using sample_names by (simp add: factoryMap_def sampleTs_def)
  have bogus: "deserialize sampleTs (SerializedFactory ''bogusThing'' []) =
      Inl (Error ''Unknown factory method: bogusThing'')"
    using sample_names by (simp add: factoryMap_def)
  show ?thesis
    using deserialize_factory_invokes_operation
        [of "''createExpressionStatement''" sampleTs
            "[SerializedFactory ''createIdentifier'' [SerializedLiteral (LString ''x'')]]"
            "[VNode (SampleNode ''createIdentifier'' [VString ''x''])]"
            "[]" "SerializedOther ''none''" "Error ''none''" "[]"]
      deserialize_factory_invokes_operation
        [of "''createCallExpression''" sampleTs "[]" "[VString ''f'']"
            "[SerializedLiteral (LString ''f'')]" "SerializedFactory ''bogusThing'' []"
            "Error ''Unknown factory method: bogusThing''" "[SerializedOther ''comment'']"]
      sample_names inner bogus
    by (simp add: sampleTs_def)
qed

text \<open>
  A name that is neither \<open>__array__\<close>, nor a key of the table, nor a property of
  \<open>Object.prototype\<close> is rejected with the name in the message, before any argument is
  deserialized.
\<close>

lemma deserialize_unknown_factory:
  "name \<noteq> ''__array__'' \<Longrightarrow> name \<notin> set factoryNames \<Longrightarrow>
     name \<notin> set objectPrototypeNames \<Longrightarrow>
     deserialize ts (SerializedFactory name args) =
       Inl (Error (''Unknown factory method: '' @ name))"
  by (simp add: factoryMap_def)

text \<open>
  C2. The specification states that every name absent from the operation table, the
  sentinel apart, is rejected with "Unknown factory method" and that no operation is
  invoked. On the code this fails for the names of
  the properties of \<open>Object.prototype\<close>: \<open>toString\<close> and \<open>constructor\<close> are no keys of
  the table, yet \<open>factoryMap[name]\<close> finds the inherited functions, the test
  \<open>!factory\<close> is false, and the function is called. The node
  \<open>{"type":"factory","name":"toString","args":[]}\<close> deserializes to the string
  \<open>[object Undefined]\<close>, and the same node with the name \<open>constructor\<close> to an empty
  object.
\<close>

theorem deserialize_inherited_name_not_rejected:
  "''toString'' \<notin> set factoryNames
   \<and> deserialize ts (SerializedFactory ''toString'' []) = Inr (VString ''[object Undefined]'')
   \<and> ''constructor'' \<notin> set factoryNames
   \<and> deserialize ts (SerializedFactory ''constructor'' []) = Inr VPlainObject"
  by (simp add: factoryMap_def factoryNames_def objectPrototypeNames_def callInherited_def)

text \<open>
  C3. A factory node named \<open>__array__\<close> deserializes to the array of the deserialized
  arguments, in the order of \<open>args\<close>; for \<open>args = [A, B]\<close> the result is the array of
  the two results. This is all it can return: a result is always such an array. When an
  argument fails, the arguments before it having deserialized, the node fails with the
  error of that argument; and every list of arguments is of one of these two kinds.
\<close>

theorem deserialize_array_sentinel:
  "(map (deserialize ts) args = map Inr vs \<longrightarrow>
      deserialize ts (SerializedFactory ''__array__'' args) = Inr (VArray vs))
   \<and> (deserialize ts A = Inr a \<and> deserialize ts B = Inr b \<longrightarrow>
      deserialize ts (SerializedFactory ''__array__'' [A, B]) = Inr (VArray [a, b]))
   \<and> (deserialize ts (SerializedFactory ''__array__'' args) = Inr v \<longrightarrow>
      (\<exists>us. v = VArray us \<and> map (deserialize ts) args = map Inr us))
   \<and> (map (deserialize ts) pre = map Inr ws \<and> deserialize ts x = Inl e \<longrightarrow>
      deserialize ts (SerializedFactory ''__array__'' (pre @ x # post)) = Inl e)
   \<and> ((\<exists>us. map (deserialize ts) args = map Inr us)
      \<or> (\<exists>pre x post ws e. args = pre @ x # post
            \<and> map (deserialize ts) pre = map Inr ws \<and> deserialize ts x = Inl e))"
proof (intro conjI impI)
  assume "deserialize ts (SerializedFactory ''__array__'' args) = Inr v"
  then obtain us where "deserializeArgs ts args = Inr us" and "v = VArray us"
    by (auto split: sum.splits)
  then show "\<exists>us. v = VArray us \<and> map (deserialize ts) args = map Inr us"
    by (auto simp: deserializeArgs_Inr)
next
  assume "map (deserialize ts) pre = map Inr ws \<and> deserialize ts x = Inl e"
  then have "deserializeArgs ts (pre @ x # post) = Inl e"
    by (simp add: deserializeArgs_Inl)
  then show "deserialize ts (SerializedFactory ''__array__'' (pre @ x # post)) = Inl e"
    by simp
next
  show "(\<exists>us. map (deserialize ts) args = map Inr us)
      \<or> (\<exists>pre x post ws e. args = pre @ x # post
            \<and> map (deserialize ts) pre = map Inr ws \<and> deserialize ts x = Inl e)"
    by (rule deserializeArgs_cases)
qed (simp_all add: deserializeArgs_Inr [symmetric])

theorem deserialize_array_sentinel_witness:
  "deserialize sampleTs
     (SerializedFactory ''__array__''
        [SerializedLiteral (LString ''a''), SerializedNumber (Text ''42'')]) =
     Inr (VArray [VString ''a'', VNumber (Finite False 42)])
   \<and> deserialize sampleTs
     (SerializedFactory ''__array__''
        [SerializedLiteral (LString ''a''), SerializedFactory ''bogusThing'' [],
         SerializedOther ''comment'']) =
     Inl (Error ''Unknown factory method: bogusThing'')"
proof -
  have n42: "deserialize sampleTs (SerializedNumber (Text ''42'')) =
      Inr (VNumber (Finite False 42))"
    by (simp add: sampleTs_def parseFloat_defs)
  have bogus: "deserialize sampleTs (SerializedFactory ''bogusThing'' []) =
      Inl (Error ''Unknown factory method: bogusThing'')"
    using sample_names by (simp add: factoryMap_def)
  have ok: "deserialize sampleTs
     (SerializedFactory ''__array__''
        [SerializedLiteral (LString ''a''), SerializedNumber (Text ''42'')]) =
     Inr (VArray [VString ''a'', VNumber (Finite False 42)])"
    using deserialize_array_sentinel
      [of sampleTs "[SerializedLiteral (LString ''a''), SerializedNumber (Text ''42'')]"
          "[VString ''a'', VNumber (Finite False 42)]"
          "SerializedLiteral (LString ''a'')" "VString ''a''"
          "SerializedNumber (Text ''42'')" "VNumber (Finite False 42)"]
      n42
    by simp
  have failing: "deserialize sampleTs
     (SerializedFactory ''__array__''
        [SerializedLiteral (LString ''a''), SerializedFactory ''bogusThing'' [],
         SerializedOther ''comment'']) =
     Inl (Error ''Unknown factory method: bogusThing'')"
    using deserialize_array_sentinel
      [of sampleTs _ _ _ _ _ _ _ "[SerializedLiteral (LString ''a'')]" "[VString ''a'']"
          "SerializedFactory ''bogusThing'' []"
          "Error ''Unknown factory method: bogusThing''" "[SerializedOther ''comment'']"]
      bogus
    by simp
  from ok failing show ?thesis by simp
qed

section \<open>Terminal nodes\<close>

text \<open>
  C4. A number node with a native number deserializes to that number; with a string it
  deserializes to what \<open>parseFloat\<close> returns for the string. With the \<open>parseFloat\<close> of
  ECMAScript that value is the decimal reading of the string:
  \<^item> \<open>3.14\<close> yields the double nearest to 3.14, that is 157/50;
  \<^item> digits, a point and digits yield the integer part plus the fraction, and digits
    alone their value in base ten (as a double: an infinity from \<open>2 ^ 1024 - 2 ^ 970\<close>
    on);
  \<^item> a radix prefix is not read: a string that begins with \<open>0x\<close> yields 0, whatever
    follows;
  \<^item> a comma is neither a decimal nor a grouping separator: it ends the number.
\<close>

theorem deserialize_number:
  "deserialize ts (SerializedNumber (Native x)) = Inr (VNumber x)
   \<and> deserialize ts (SerializedNumber (Text s)) = Inr (VNumber (parseFloat ts s))
   \<and> (parseFloat ts = jsParseFloat \<longrightarrow>
        deserialize ts (SerializedNumber (Text ''3.14'')) =
          Inr (VNumber (Finite False (157 / 50)))
        \<and> deserialize ts (SerializedNumber (Text (''0x'' @ rest))) =
          Inr (VNumber (Finite False 0)))
   \<and> (parseFloat ts = jsParseFloat \<and> ip \<noteq> [] \<and> list_all isDigit ip
        \<and> list_all isDigit fp \<longrightarrow>
        deserialize ts (SerializedNumber (Text (ip @ ''.'' @ fp))) =
          Inr (VNumber (roundMV False
            (of_nat (digitsValue ip) + of_nat (digitsValue fp) / 10 ^ length fp)))
        \<and> deserialize ts (SerializedNumber (Text ip)) =
          Inr (VNumber (roundMV False (of_nat (digitsValue ip))))
        \<and> deserialize ts (SerializedNumber (Text (ip @ '','' @ tail))) =
          Inr (VNumber (roundMV False (of_nat (digitsValue ip)))))"
proof (intro conjI impI)
  assume "parseFloat ts = jsParseFloat"
  then show "deserialize ts (SerializedNumber (Text ''3.14'')) =
      Inr (VNumber (Finite False (157 / 50)))"
    by (simp add: parseFloat_defs)
next
  assume "parseFloat ts = jsParseFloat"
  then show "deserialize ts (SerializedNumber (Text (''0x'' @ rest))) =
      Inr (VNumber (Finite False 0))"
    by (simp add: jsParseFloat_hex [simplified])
next
  assume a: "parseFloat ts = jsParseFloat \<and> ip \<noteq> [] \<and> list_all isDigit ip
      \<and> list_all isDigit fp"
  then show "deserialize ts (SerializedNumber (Text (ip @ ''.'' @ fp))) =
      Inr (VNumber (roundMV False
        (of_nat (digitsValue ip) + of_nat (digitsValue fp) / 10 ^ length fp)))"
    using jsParseFloat_decimal [of ip fp] by simp
  from a show "deserialize ts (SerializedNumber (Text ip)) =
      Inr (VNumber (roundMV False (of_nat (digitsValue ip))))"
    using jsParseFloat_integer [of ip] by simp
  from a show "deserialize ts (SerializedNumber (Text (ip @ '','' @ tail))) =
      Inr (VNumber (roundMV False (of_nat (digitsValue ip))))"
    using jsParseFloat_integer_then [of ip "CHR '',''" tail] by (simp add: isDigit_def)
qed simp_all

theorem deserialize_number_witness:
  "deserialize sampleTs (SerializedNumber (Native (Finite False 42))) =
     Inr (VNumber (Finite False 42))
   \<and> deserialize sampleTs (SerializedNumber (Text ''3.14'')) =
     Inr (VNumber (Finite False (157 / 50)))
   \<and> deserialize sampleTs (SerializedNumber (Text ''0x10'')) = Inr (VNumber (Finite False 0))
   \<and> deserialize sampleTs (SerializedNumber (Text ''12.5'')) =
     Inr (VNumber (Finite False (25 / 2)))
   \<and> deserialize sampleTs (SerializedNumber (Text ''12'')) = Inr (VNumber (Finite False 12))
   \<and> deserialize sampleTs (SerializedNumber (Text ''12,5'')) =
     Inr (VNumber (Finite False 12))"
proof -
  have rt: "parseFloat sampleTs = jsParseFloat"
    by (simp add: sampleTs_def)
  have digits: "list_all isDigit ''12''" "list_all isDigit ''5''"
    by (simp_all add: isDigit_def)
  have vals: "digitsValue ''12'' = 12" "digitsValue ''5'' = 5"
    by (simp_all add: digitsValue_def digitValue_def)
  show ?thesis
    using deserialize_number [of sampleTs "Finite False 42" "''3.14''" "''10''" "''12''" "''5''" "''5''"]
      rt digits vals
    by (simp add: roundMV_def)
qed

text \<open>
  C5. A literal node deserializes to its payload: \<open>null\<close> to \<open>null\<close> (not to
  \<open>undefined\<close>), a boolean to itself, a string to itself.
\<close>

theorem deserialize_literal:
  "deserialize ts (SerializedLiteral LNull) = Inr VNull
   \<and> deserialize ts (SerializedLiteral LNull) \<noteq> Inr VUndefined
   \<and> deserialize ts (SerializedLiteral (LBoolean b)) = Inr (VBoolean b)
   \<and> deserialize ts (SerializedLiteral (LString s)) = Inr (VString s)"
  by simp

text \<open>
  C10. A number node with a string payload never fails: whatever \<open>parseFloat\<close>
  returns for the string, \<open>NaN\<close> and the infinities included, is the result. Nothing
  checks that the string denotes a finite number.
\<close>

theorem deserialize_number_string_unvalidated:
  "parseFloat ts s = x \<Longrightarrow>
     deserialize ts (SerializedNumber (Text s)) = Inr (VNumber x)
     \<and> (\<forall>e. deserialize ts (SerializedNumber (Text s)) \<noteq> Inl e)"
  by simp

theorem deserialize_number_string_unvalidated_witness:
  "parseFloat sampleTs ''abc'' = NaN
   \<and> deserialize sampleTs (SerializedNumber (Text ''abc'')) = Inr (VNumber NaN)
   \<and> (\<forall>e. deserialize sampleTs (SerializedNumber (Text ''abc'')) \<noteq> Inl e)"
proof -
  have p: "parseFloat sampleTs ''abc'' = NaN"
    by (simp add: sampleTs_def parseFloat_defs)
  show ?thesis
    using p deserialize_number_string_unvalidated [OF p] by simp
qed

section \<open>Typed projections\<close>

text \<open>
  What \<open>deserializeStatement\<close> does, by the outcome of \<open>deserialize\<close>: an error is
  passed on; a node is returned when it is a statement and otherwise reported with its
  kind; any other value but \<open>null\<close> and \<open>undefined\<close> is reported with the kind
  \<open>undefined\<close>.
\<close>

lemma deserializeStatement_propagates:
  "deserialize ts node = Inl e \<Longrightarrow> deserializeStatement ts node = Inl e"
  by (simp add: deserializeStatement_def)

lemma deserializeStatement_node:
  "deserialize ts node = Inr (VNode n) \<Longrightarrow>
     deserializeStatement ts node =
       (if isStatement ts n then Inr (VNode n)
        else Inl (Error (''Expected a statement, got: '' @ showNat (kind ts n))))"
  by (simp add: deserializeStatement_def)

lemma deserializeStatement_other:
  "deserialize ts node = Inr v \<Longrightarrow> v \<noteq> VNull \<Longrightarrow> v \<noteq> VUndefined \<Longrightarrow>
     (\<forall>n. v \<noteq> VNode n) \<Longrightarrow>
     deserializeStatement ts node = Inl (Error ''Expected a statement, got: undefined'')"
  by (cases v) (simp_all add: deserializeStatement_def)

lemma deserializeStatement_sample:
  "deserializeStatement sampleTs
     (SerializedFactory ''createIdentifier'' [SerializedLiteral (LString ''x'')]) =
     Inl (Error ''Expected a statement, got: 80'')"
  "deserializeStatement sampleTs
     (SerializedFactory ''createExpressionStatement''
        [SerializedFactory ''createIdentifier'' [SerializedLiteral (LString ''x'')]]) =
     Inr (VNode (SampleNode ''createExpressionStatement''
        [VNode (SampleNode ''createIdentifier'' [VString ''x''])]))"
  using sample_names
  by (simp_all add: deserializeStatement_def factoryMap_def sampleTs_def showNat.simps
      digitChar_def)

text \<open>
  C6. The specification states that \<open>deserializeStatement\<close>, on every node, returns
  the deserialized result when it is a statement and otherwise fails with
  "Expected a statement, got: <kind>". On the code this fails
  when the deserialized value is \<open>undefined\<close> or \<open>null\<close>: the nodes
  \<open>{"type":"undefined"}\<close> and \<open>{"type":"literal","value":null}\<close> deserialize without
  error, and \<open>ts.isStatement\<close> then reads the field \<open>kind\<close> of \<open>undefined\<close> or
  \<open>null\<close>, which throws a TypeError and not that error.
\<close>

theorem deserializeStatement_null_undefined:
  "deserialize ts SerializedUndefined = Inr VUndefined
   \<and> deserializeStatement ts SerializedUndefined = Inl TypeError
   \<and> deserialize ts (SerializedLiteral LNull) = Inr VNull
   \<and> deserializeStatement ts (SerializedLiteral LNull) = Inl TypeError"
  by (simp add: deserializeStatement_def)

text \<open>
  C7. \<open>deserializeDeclaration\<close> is \<open>deserialize\<close>: it checks nothing, so it succeeds
  whenever \<open>deserialize\<close> does, also on a value that is no declaration (a string, say),
  and fails only with the errors of \<open>deserialize\<close>.
\<close>

theorem deserializeDeclaration_unchecked:
  "deserializeDeclaration ts node = deserialize ts node
   \<and> deserializeDeclaration ts (SerializedLiteral (LString s)) = Inr (VString s)"
  by (simp add: deserializeDeclaration_def split: sum.splits)

section \<open>The printer\<close>

lemma sublist_join: "x \<in> set xs \<Longrightarrow> sublist x (join sep xs)"
proof (induction sep xs rule: join.induct)
  case (3 sep a b ys)
  show ?case
  proof (cases "x = a")
    case True
    then show ?thesis by simp
  next
    case False
    with "3.prems" have "x \<in> set (b # ys)" by simp
    then have "sublist x (join sep (b # ys))" by (rule "3.IH")
    then obtain ps ss where "join sep (b # ys) = ps @ x @ ss"
      by (auto simp: sublist_def)
    then have "join sep (a # b # ys) = (a @ sep @ ps) @ x @ ss" by simp
    then show ?thesis unfolding sublist_def by blast
  qed
qed simp_all

lemma sublist_unableToLint_text: "sublist t (unableToLint t ms)"
proof -
  have "unableToLint t ms =
      (''unable to lint printed node:'' @ newline @ newline) @ t
        @ (newline @ newline @ ''Errors:'' @ newline @ join newline (map formatMessage ms))"
    by (simp add: unableToLint_def)
  then show ?thesis unfolding sublist_def by blast
qed

lemma sublist_unableToLint_message:
  assumes "m \<in> set ms"
  shows "sublist (formatMessage m) (unableToLint t ms)"
proof -
  from assms have "sublist (formatMessage m) (join newline (map formatMessage ms))"
    by (intro sublist_join) simp
  then obtain ps ss where "join newline (map formatMessage ms) = ps @ formatMessage m @ ss"
    by (auto simp: sublist_def)
  then have "unableToLint t ms =
      (''unable to lint printed node:'' @ newline @ newline @ t @ newline @ newline
        @ ''Errors:'' @ newline @ ps) @ formatMessage m @ ss"
    by (simp add: unableToLint_def)
  then show ?thesis unfolding sublist_def by blast
qed

text \<open>
  C8. The outcome of \<open>lintText\<close> on a text \<open>t\<close>, by the first result \<open>r\<close> of the checker:
  when \<open>r\<close> carries a fixed output, that output; when the checker gives no result, or
  \<open>r\<close> carries neither output nor messages, the text \<open>t\<close> unchanged; otherwise the
  error whose message is \<open>unableToLint t (messages r)\<close>, which contains \<open>t\<close> and, for
  every message \<open>m\<close> of \<open>r\<close>, the entry \<open>line:column message\<close>. This holds for every
  text, empty or not.
\<close>

theorem lintText_outcome:
  "(eslint api (createLinter options) t = r # rs \<and> lintOutput r = Some fixed \<longrightarrow>
      snd (lintText api t options) = Inr fixed)
   \<and> (eslint api (createLinter options) t = []
       \<or> eslint api (createLinter options) t = r # rs \<and> lintOutput r = None
          \<and> messages r = [] \<longrightarrow>
      snd (lintText api t options) = Inr t)
   \<and> (eslint api (createLinter options) t = r # rs \<and> lintOutput r = None
       \<and> messages r \<noteq> [] \<longrightarrow>
      snd (lintText api t options) = Inl (Error (unableToLint t (messages r)))
      \<and> sublist t (unableToLint t (messages r))
      \<and> (\<forall>m \<in> set (messages r).
           sublist (showNat (line m) @ '':'' @ showNat (column m) @ '' '' @ message m)
             (unableToLint t (messages r))))"
proof (intro conjI impI ballI)
  fix m
  assume "m \<in> set (messages r)"
  then show "sublist (showNat (line m) @ '':'' @ showNat (column m) @ '' '' @ message m)
      (unableToLint t (messages r))"
    using sublist_unableToLint_message [of m "messages r" t]
    by (simp add: formatMessage_def)
qed (auto simp: lintText_def Let_def sublist_unableToLint_text)

lemma sample_lint:
  "eslint sampleApi (createLinter defaultOptions) ''x'' =
     [\<lparr> lintOutput = Some (''x'' @ newline), messages = [] \<rparr>]"
  "eslint sampleApi (createLinter defaultOptions) (''x'' @ newline) =
     [\<lparr> lintOutput = None, messages = [] \<rparr>]"
  "eslint sampleApi (createLinter defaultOptions) ''@'' =
     [\<lparr> lintOutput = None,
         messages = [\<lparr> line = 1, column = 1,
                        message = ''Parsing error: Invalid character.'' \<rparr>] \<rparr>]"
  by (simp_all add: sampleApi_def sampleEslint_def createLinter_def defaultOptions_def
      newline_def)

theorem lintText_outcome_witness:
  "snd (lintText sampleApi ''x'' defaultOptions) = Inr (''x'' @ newline)
   \<and> snd (lintText sampleApi (''x'' @ newline) defaultOptions) = Inr (''x'' @ newline)
   \<and> snd (lintText sampleApi ''@'' defaultOptions) =
       Inl (Error (''unable to lint printed node:'' @ newline @ newline @ ''@'' @ newline
         @ newline @ ''Errors:'' @ newline @ ''1:1 Parsing error: Invalid character.''))
   \<and> sublist ''1:1 Parsing error: Invalid character.''
       (''unable to lint printed node:'' @ newline @ newline @ ''@'' @ newline
         @ newline @ ''Errors:'' @ newline @ ''1:1 Parsing error: Invalid character.'')"
proof -
  have fixed: "snd (lintText sampleApi ''x'' defaultOptions) = Inr (''x'' @ newline)"
    using lintText_outcome
        [of sampleApi defaultOptions "''x''"
            "\<lparr> lintOutput = Some (''x'' @ newline), messages = [] \<rparr>" "[]" "''x'' @ newline"]
      sample_lint(1)
    by simp
  have clean: "snd (lintText sampleApi (''x'' @ newline) defaultOptions) = Inr (''x'' @ newline)"
    using lintText_outcome
        [of sampleApi defaultOptions "''x'' @ newline"
            "\<lparr> lintOutput = None, messages = [] \<rparr>" "[]" "[]"]
      sample_lint(2)
    by simp
  have shown: "showNat 1 = ''1''"
    by (simp add: showNat.simps digitChar_def)
  have failing: "snd (lintText sampleApi ''@'' defaultOptions) =
       Inl (Error (''unable to lint printed node:'' @ newline @ newline @ ''@'' @ newline
         @ newline @ ''Errors:'' @ newline @ ''1:1 Parsing error: Invalid character.''))
     \<and> sublist ''1:1 Parsing error: Invalid character.''
       (''unable to lint printed node:'' @ newline @ newline @ ''@'' @ newline
         @ newline @ ''Errors:'' @ newline @ ''1:1 Parsing error: Invalid character.'')"
    using lintText_outcome
        [of sampleApi defaultOptions "''@''"
            "\<lparr> lintOutput = None,
               messages = [\<lparr> line = 1, column = 1,
                              message = ''Parsing error: Invalid character.'' \<rparr>] \<rparr>"
            "[]" "[]"]
      sample_lint(3) shown
    by (simp add: unableToLint_def formatMessage_def)
  from fixed clean failing show ?thesis by simp
qed

text \<open>
  The three print operations that test the raw text return the empty string for an
  empty text, with no call to the checker; \<open>printNodes\<close> does so for an empty list of
  nodes, whatever the printer is.
\<close>

lemma print_short_circuit:
  "printNodeText api (createPrinter options) node = [] \<Longrightarrow>
     printNode api node options = ([], Inr [])"
  "join newline (map (printNodeText api (createPrinter options)) nodes) = [] \<Longrightarrow>
     printNodes api nodes options = ([], Inr [])"
  "printNodes api [] options = ([], Inr [])"
  "printFileText api (createPrinter options) statements = [] \<Longrightarrow>
     printFile api statements options = ([], Inr [])"
  by (simp_all add: printNode_def printNodes_def printFile_def)

lemma printFile_sample: "printFile sampleApi [] defaultOptions = ([], Inr [])"
  by (simp add: printFile_def sampleApi_def)

text \<open>
  C9. The specification states that every print operation returns the empty string for
  an empty input without calling the checker. \<open>printNode\<close>, \<open>printNodes\<close> and \<open>printFile\<close> do
  (\<open>print_short_circuit\<close>); \<open>printNodeList\<close> has no such test: it always hands its
  text to \<open>lintText\<close>, so for an empty list of nodes the checker is called once, on
  the text that the printer renders for the empty list (the empty text, for the sample
  printer).
\<close>

theorem printNodeList_empty_invokes_checker:
  "fst (printNodeList api [] options) =
     [(createLinter options, printListText api (createPrinter options) [])]
   \<and> printNodeList sampleApi [] defaultOptions =
     ([(\<lparr> indentRule = 2, quotesRule = DoubleQuotes, eolLastRule = Always \<rparr>, [])], Inr [])"
  by (simp add: printNodeList_def lintText_def Let_def sampleApi_def sampleEslint_def
      createLinter_def defaultOptions_def)

end
